theory Spec2Isabelle
  imports Complex_Main "HOL-Library.Sublist"
begin

section \<open>The constraint model (the part of OR-Tools CP-SAT the scheduler uses)\<close>

text \<open>
  \<^verbatim>\<open>scheduler.py\<close> builds a \<^verbatim>\<open>cp_model.CpModel\<close>: Boolean variables created
  by \<^verbatim>\<open>NewBoolVar\<close> and constraints added by \<^verbatim>\<open>Add\<close>. A variable is
  identified by its creation index. Python's \<^verbatim>\<open>sum(...)\<close>, \<^verbatim>\<open>k * e\<close> and
  \<^verbatim>\<open>e * k\<close> over variables build linear expressions, which are kept as syntax
  trees and evaluated against a solution.
\<close>

type_synonym var = nat

datatype linexpr =
    Var var
  | Const int
  | Sum "linexpr list"
  | Scale int linexpr

datatype cmp = EQ | NE | GE | GT | LE | LT

datatype literal = Lit var | NotLit var

datatype constraint =
    Linear linexpr cmp linexpr "literal list"
    \<comment> \<open>\<^verbatim>\<open>model.Add(lhs cmp rhs)\<close>, with the literals of \<^verbatim>\<open>OnlyEnforceIf\<close>
        (none for the core rules)\<close>
  | Implication literal literal
    \<comment> \<open>\<^verbatim>\<open>model.AddImplication(a, b)\<close>\<close>

record cp_model =
  m_vars :: "string list"
  m_constraints :: "constraint list"

definition CpModel :: cp_model where
  "CpModel = \<lparr>m_vars = [], m_constraints = []\<rparr>"

definition NewBoolVar :: "string \<Rightarrow> cp_model \<Rightarrow> cp_model \<times> var" where
  "NewBoolVar name m = (m\<lparr>m_vars := m_vars m @ [name]\<rparr>, length (m_vars m))"

definition Add :: "constraint \<Rightarrow> cp_model \<Rightarrow> cp_model" where
  "Add c m = m\<lparr>m_constraints := m_constraints m @ [c]\<rparr>"

definition add_all :: "constraint list \<Rightarrow> cp_model \<Rightarrow> cp_model" where
  "add_all cs m = fold Add cs m"

text \<open>A solution gives every Boolean variable a value; as an integer it is 0 or 1.\<close>

type_synonym solution = "var \<Rightarrow> bool"

fun eval :: "solution \<Rightarrow> linexpr \<Rightarrow> int" where
  "eval v (Var x) = (if v x then 1 else 0)"
| "eval v (Const c) = c"
| "eval v (Sum es) = sum_list (map (eval v) es)"
| "eval v (Scale k e) = k * eval v e"

fun compare :: "cmp \<Rightarrow> int \<Rightarrow> int \<Rightarrow> bool" where
  "compare EQ a b = (a = b)"
| "compare NE a b = (a \<noteq> b)"
| "compare GE a b = (a \<ge> b)"
| "compare GT a b = (a > b)"
| "compare LE a b = (a \<le> b)"
| "compare LT a b = (a < b)"

fun lit_true :: "solution \<Rightarrow> literal \<Rightarrow> bool" where
  "lit_true v (Lit x) = v x"
| "lit_true v (NotLit x) = (\<not> v x)"

fun holds :: "solution \<Rightarrow> constraint \<Rightarrow> bool" where
  "holds v (Linear l c r enf) = (list_all (lit_true v) enf \<longrightarrow> compare c (eval v l) (eval v r))"
| "holds v (Implication a b) = (lit_true v a \<longrightarrow> lit_true v b)"

definition sat_model :: "cp_model \<Rightarrow> solution \<Rightarrow> bool" where
  "sat_model m v = list_all (holds v) (m_constraints m)"

datatype status = UNKNOWN | MODEL_INVALID | FEASIBLE | INFEASIBLE | OPTIMAL

record solver_parameters =
  max_time_in_seconds :: nat
  num_search_workers :: nat
  relative_gap_limit :: rat
  random_seed :: nat

section \<open>Strings: the Python operations applied to the generated fragment\<close>

text \<open>
  \<open>string\<close> is a list of 8-bit characters, read as the code points U+0000 to U+00FF.
  Among them the whitespace of \<^verbatim>\<open>str.strip\<close> and of the regular expression class
  \<^verbatim>\<open>\s\<close> is: tab to carriage return, the four separators 0x1C to 0x1F, the space, the
  next-line character U+0085 and the no-break space U+00A0.
\<close>

definition is_space :: "char \<Rightarrow> bool" where
  "is_space c =
     (let n = (of_char c :: nat)
      in (9 \<le> n \<and> n \<le> 13) \<or> (28 \<le> n \<and> n \<le> 32) \<or> n = 133 \<or> n = 160)"

definition strip :: "string \<Rightarrow> string" where
  "strip s = rev (dropWhile is_space (rev (dropWhile is_space s)))"

definition newline :: char where
  "newline = CHR 0x0A"

definition fence :: string where
  "fence = [CHR 0x60, CHR 0x60, CHR 0x60]"

text \<open>\<^verbatim>\<open>re.sub(r"^```(?:python)?\s*", "", snippet)\<close>: the pattern is anchored at the
  start, so at most one match is removed.\<close>

definition strip_opening_fence :: "string \<Rightarrow> string" where
  "strip_opening_fence s =
     (if prefix fence s then
        (let t = drop 3 s;
             u = (if prefix ''python'' t then drop 6 t else t)
         in dropWhile is_space u)
      else s)"

text \<open>\<^verbatim>\<open>re.sub(r"\s*```$", "", snippet)\<close>: the leftmost position from which the rest
  of the string is whitespace, the fence, and the end of the string (\<^verbatim>\<open>$\<close> also
  matches before a final newline, which then stays).\<close>

fun strip_closing_fence :: "string \<Rightarrow> string" where
  "strip_closing_fence [] = []"
| "strip_closing_fence (c # cs) =
     (let t = dropWhile is_space (c # cs) in
      if t = fence then []
      else if t = fence @ [newline] then [newline]
      else c # strip_closing_fence cs)"

text \<open>\<^verbatim>\<open>f in snippet\<close> on strings: \<open>f\<close> occurs as a contiguous substring.\<close>

fun contains :: "string \<Rightarrow> string \<Rightarrow> bool" where
  "contains f [] = (f = [])"
| "contains f (c # cs) = (prefix f (c # cs) \<or> contains f cs)"

text \<open>\<^verbatim>\<open>snippet.replace('\\n', '\n')\<close>: every backslash followed by \<open>n\<close> becomes a
  newline, left to right.\<close>

fun replace_escaped_newlines :: "string \<Rightarrow> string" where
  "replace_escaped_newlines (a # b # cs) =
     (if a = CHR 0x5C \<and> b = CHR ''n'' then newline # replace_escaped_newlines cs
      else a # replace_escaped_newlines (b # cs))"
| "replace_escaped_newlines cs = cs"

definition clean_snippet :: "string \<Rightarrow> string" where
  "clean_snippet raw =
     (let s1 = strip raw;
          s2 = strip_opening_fence s1;
          s3 = strip_closing_fence s2
      in if contains [CHR 0x5C, CHR ''n''] s3 \<and> \<not> contains [newline] s3
         then replace_escaped_newlines s3 else s3)"

definition forbidden :: "string list" where
  "forbidden = [''shift_names.index'', ''for d in days'', ''for d in days[:-1]'', ''for d in days[1:]'']"

fun str_of_nat :: "nat \<Rightarrow> string" where
  "str_of_nat n =
     (if n < 10 then [char_of (48 + n)]
      else str_of_nat (n div 10) @ [char_of (48 + n mod 10)])"

section \<open>The scheduler's data\<close>

text \<open>
  \<^verbatim>\<open>input_data\<close> is the dictionary that \<^verbatim>\<open>build_and_solve\<close> receives. The keys it
  reads with \<^verbatim>\<open>[...]\<close> are fields; the keys it reads with \<^verbatim>\<open>.get(key, default)\<close>
  are optional fields. \<^verbatim>\<open>input_data["nurses"]["seniors"]\<close> and
  \<^verbatim>\<open>input_data["nurses"]["juniors"]\<close> are the fields \<open>seniors\<close> and \<open>juniors\<close>.
\<close>

record input_data =
  seniors :: "string list"
  juniors :: "string list"
  start_date :: string
  end_date :: string
  mc_preferences :: "(string \<rightharpoonup> string list) option"
  min_nurses_per_shift :: int
  min_seniors_per_shift :: int
  min_am_coverage :: "int option"
  min_senior_am_coverage :: "int option"
  max_hours_per_week :: int
  min_hours_per_week :: int
  rules_text :: "string option"
  day_of_week :: "string list option"

type_synonym key = "string \<times> nat \<times> string"
type_synonym work = "key \<rightharpoonup> var"

text \<open>The objects handed to the generated fragment (the \<^verbatim>\<open>namespace\<close> dictionary of
  step 4); they are the function's own local objects, so what the fragment does to them
  is what the rest of the function sees.\<close>

record namespace =
  ns_model :: cp_model
  ns_work :: work
  ns_nurses :: "string list"
  ns_seniors :: "string list"
  ns_juniors :: "string list"
  ns_days :: "string list"
  ns_shift_names :: "string list"
  ns_day_of_week :: "string list"

datatype error =
    ValueError
  | KeyError
  | RuntimeError string
  | TranslatorError string

text \<open>
  What the function calls and does not define: \<^verbatim>\<open>datetime.strptime(s, "%Y-%m-%d")\<close>
  (a day number, or \<open>None\<close> for its \<^verbatim>\<open>ValueError\<close>), \<^verbatim>\<open>strftime("%Y-%m-%d")\<close>,
  the text around the rule in the code-generation prompt, \<^verbatim>\<open>call_llm\<close>, Python's
  \<^verbatim>\<open>exec\<close> of the fragment on the namespace (\<open>Inl\<close> carries the text of the exception)
  and \<^verbatim>\<open>CpSolver.Solve\<close> with \<^verbatim>\<open>CpSolver.Value\<close>.
\<close>

record env =
  strptime :: "string \<Rightarrow> int option"
  strftime :: "int \<Rightarrow> string"
  prompt_text :: "string \<times> string"
  call_llm :: "string \<Rightarrow> error + string"
  exec :: "string \<Rightarrow> namespace \<Rightarrow> string + namespace"
  Solve :: "solver_parameters \<Rightarrow> cp_model \<Rightarrow> status \<times> solution"

datatype out_value = Rows "(string \<times> string \<times> string) list" | Message string

type_synonym response = "(string \<times> out_value) list"

section \<open>\<^verbatim>\<open>build_and_solve\<close>, steps 1 to 3: variables and core rules\<close>

definition shift_names :: "string list" where
  "shift_names = [''AM'', ''PM'', ''Night'', ''REST'', ''MC'']"

definition working_shifts :: "string list" where
  "working_shifts = [''AM'', ''PM'', ''Night'']"

definition make_days :: "env \<Rightarrow> int \<Rightarrow> int \<Rightarrow> string list" where
  "make_days env start_day end_day =
     map (\<lambda>i. strftime env (start_day + int i)) [0..<nat (end_day - start_day + 1)]"

definition var_name :: "key \<Rightarrow> string" where
  "var_name k = (case k of (n, d, s) \<Rightarrow> ''work_'' @ n @ ''_'' @ str_of_nat d @ ''_'' @ s)"

definition new_work_var :: "key \<Rightarrow> cp_model \<times> work \<Rightarrow> cp_model \<times> work" where
  "new_work_var k mw =
     (case mw of (m, w) \<Rightarrow> (case NewBoolVar (var_name k) m of (m', x) \<Rightarrow> (m', w(k \<mapsto> x))))"

definition all_keys :: "string list \<Rightarrow> nat \<Rightarrow> string list \<Rightarrow> key list" where
  "all_keys nurses D shifts = [(n, d, s). n \<leftarrow> nurses, d \<leftarrow> [0..<D], s \<leftarrow> shifts]"

definition create_variables :: "string list \<Rightarrow> nat \<Rightarrow> cp_model \<Rightarrow> cp_model \<times> work" where
  "create_variables nurses D m = fold new_work_var (all_keys nurses D shift_names) (m, Map.empty)"

text \<open>\<^verbatim>\<open>work[n, d, s]\<close>. Python raises \<^verbatim>\<open>KeyError\<close> on a missing key; steps 2b to 3d
  read only keys that step 2 has stored (lemma \<open>create_variables_defined\<close>), and the
  read of step 6, after the fragment has run, is guarded in \<open>project_rows\<close>.\<close>

definition work_at :: "work \<Rightarrow> string \<Rightarrow> nat \<Rightarrow> string \<Rightarrow> var" where
  "work_at w n d s = the (w (n, d, s))"

definition declared_dates :: "input_data \<Rightarrow> string \<Rightarrow> string list" where
  "declared_dates inp n =
     (case mc_preferences inp of None \<Rightarrow> []
      | Some declared_mc \<Rightarrow> (case declared_mc n of None \<Rightarrow> [] | Some ds \<Rightarrow> ds))"

definition mc_constraint :: "input_data \<Rightarrow> work \<Rightarrow> string \<Rightarrow> nat \<times> string \<Rightarrow> constraint" where
  "mc_constraint inp w n p =
     (case p of (d, day_str) \<Rightarrow>
        if day_str \<in> set (declared_dates inp n)
        then Linear (Var (work_at w n d ''MC'')) EQ (Const 1) []
        else Linear (Var (work_at w n d ''MC'')) EQ (Const 0) [])"

definition leave_constraints :: "input_data \<Rightarrow> work \<Rightarrow> string list \<Rightarrow> string list \<Rightarrow> constraint list" where
  "leave_constraints inp w nurses days =
     [mc_constraint inp w n p. n \<leftarrow> nurses, p \<leftarrow> enumerate 0 days]"

definition one_shift :: "work \<Rightarrow> string \<Rightarrow> nat \<Rightarrow> constraint" where
  "one_shift w n d = Linear (Sum [Var (work_at w n d s). s \<leftarrow> shift_names]) EQ (Const 1) []"

definition single_assignment :: "work \<Rightarrow> string list \<Rightarrow> nat \<Rightarrow> constraint list" where
  "single_assignment w nurses D = [one_shift w n d. n \<leftarrow> nurses, d \<leftarrow> [0..<D]]"

definition coverage_pair :: "input_data \<Rightarrow> work \<Rightarrow> string list \<Rightarrow> string list \<Rightarrow> nat \<Rightarrow> string \<Rightarrow> constraint list" where
  "coverage_pair inp w nurses snrs d s =
     [Linear (Sum [Var (work_at w n d s). n \<leftarrow> nurses]) GE (Const (min_nurses_per_shift inp)) [],
      Linear (Sum [Var (work_at w n d s). n \<leftarrow> snrs]) GE (Const (min_seniors_per_shift inp)) []]"

definition shift_coverage :: "input_data \<Rightarrow> work \<Rightarrow> string list \<Rightarrow> string list \<Rightarrow> nat \<Rightarrow> constraint list" where
  "shift_coverage inp w nurses snrs D =
     concat [coverage_pair inp w nurses snrs d s. d \<leftarrow> [0..<D], s \<leftarrow> working_shifts]"

definition total_working :: "work \<Rightarrow> string list \<Rightarrow> nat \<Rightarrow> linexpr" where
  "total_working w ns d = Sum [Var (work_at w n d s). n \<leftarrow> ns, s \<leftarrow> working_shifts]"

definition min_am_pct :: "input_data \<Rightarrow> int" where
  "min_am_pct inp = (case min_am_coverage inp of None \<Rightarrow> 0 | Some p \<Rightarrow> p)"

definition min_senior_am_pct :: "input_data \<Rightarrow> int" where
  "min_senior_am_pct inp = (case min_senior_am_coverage inp of None \<Rightarrow> 0 | Some p \<Rightarrow> p)"

definition am_percentage :: "int \<Rightarrow> work \<Rightarrow> string list \<Rightarrow> nat \<Rightarrow> constraint list" where
  "am_percentage pct w ns d =
     (if pct > 0
      then [Linear (Scale 100 (Sum [Var (work_at w n d ''AM''). n \<leftarrow> ns])) GE
              (Scale pct (total_working w ns d)) []]
      else [])"

definition percentage_coverage :: "input_data \<Rightarrow> work \<Rightarrow> string list \<Rightarrow> string list \<Rightarrow> nat \<Rightarrow> constraint list" where
  "percentage_coverage inp w nurses snrs D =
     concat [am_percentage (min_am_pct inp) w nurses d @ am_percentage (min_senior_am_pct inp) w snrs d.
             d \<leftarrow> [0..<D]]"

definition shift_hours :: "string \<rightharpoonup> int" where
  "shift_hours = map_of [(''AM'', 7), (''PM'', 7), (''Night'', 10), (''REST'', 0), (''MC'', 0)]"

definition week_total :: "work \<Rightarrow> string \<Rightarrow> nat \<Rightarrow> linexpr" where
  "week_total w n wk =
     Sum [Scale (the (shift_hours s)) (Var (work_at w n d s)). d \<leftarrow> [wk * 7..<(wk + 1) * 7], s \<leftarrow> working_shifts]"

definition week_pair :: "input_data \<Rightarrow> work \<Rightarrow> string \<Rightarrow> nat \<Rightarrow> constraint list" where
  "week_pair inp w n wk =
     [Linear (week_total w n wk) LE (Const (max_hours_per_week inp)) [],
      Linear (week_total w n wk) GE (Const (min_hours_per_week inp)) []]"

definition weekly_hours :: "input_data \<Rightarrow> work \<Rightarrow> string list \<Rightarrow> nat \<Rightarrow> constraint list" where
  "weekly_hours inp w nurses D =
     concat [week_pair inp w n wk. n \<leftarrow> nurses, wk \<leftarrow> [0..<D div 7]]"

definition core_constraints :: "input_data \<Rightarrow> work \<Rightarrow> string list \<Rightarrow> string list \<Rightarrow> string list \<Rightarrow> constraint list" where
  "core_constraints inp w nurses snrs days =
     leave_constraints inp w nurses days
     @ single_assignment w nurses (length days)
     @ shift_coverage inp w nurses snrs (length days)
     @ percentage_coverage inp w nurses snrs (length days)
     @ weekly_hours inp w nurses (length days)"

definition core_namespace :: "env \<Rightarrow> input_data \<Rightarrow> int \<Rightarrow> int \<Rightarrow> namespace" where
  "core_namespace env inp start_day end_day =
     (let nurses = seniors inp @ juniors inp;
          days = make_days env start_day end_day
      in case create_variables nurses (length days) CpModel of
           (m, w) \<Rightarrow>
             \<lparr>ns_model = add_all (core_constraints inp w nurses (seniors inp) days) m,
              ns_work = w,
              ns_nurses = nurses,
              ns_seniors = seniors inp,
              ns_juniors = juniors inp,
              ns_days = days,
              ns_shift_names = shift_names,
              ns_day_of_week = (case day_of_week inp of None \<Rightarrow> [] | Some l \<Rightarrow> l)\<rparr>)"

definition build_core :: "env \<Rightarrow> input_data \<Rightarrow> error + namespace" where
  "build_core env inp =
     (case strptime env (start_date inp) of
        None \<Rightarrow> Inl ValueError
      | Some start_day \<Rightarrow>
          (case strptime env (end_date inp) of
             None \<Rightarrow> Inl ValueError
           | Some end_day \<Rightarrow> Inr (core_namespace env inp start_day end_day)))"

section \<open>Step 4: custom rules\<close>

definition build_codegen_prompt :: "env \<Rightarrow> string \<Rightarrow> string" where
  "build_codegen_prompt env custom_rules =
     fst (prompt_text env) @ custom_rules @ snd (prompt_text env)"

definition custom_rules :: "env \<Rightarrow> input_data \<Rightarrow> namespace \<Rightarrow> error + namespace" where
  "custom_rules env inp ns =
     (let custom = strip (case rules_text inp of None \<Rightarrow> [] | Some t \<Rightarrow> t) in
      if custom = [] then Inr ns
      else
        (case call_llm env (build_codegen_prompt env custom) of
           Inl e \<Rightarrow> Inl e
         | Inr raw \<Rightarrow>
             (let snippet = clean_snippet raw in
              case find (\<lambda>f. contains f snippet) forbidden of
                Some f \<Rightarrow>
                  Inl (RuntimeError (''LLM code contains forbidden pattern: '' @ f @ [newline] @ snippet))
              | None \<Rightarrow>
                  (case exec env snippet ns of
                     Inl e \<Rightarrow>
                       Inl (RuntimeError (''Error executing custom-rule code:'' @ [newline] @ snippet
                                          @ [newline, newline] @ e))
                   | Inr ns' \<Rightarrow> Inr ns'))))"

section \<open>Steps 5 and 6: solve and format the output\<close>

definition parameters :: solver_parameters where
  "parameters = \<lparr>max_time_in_seconds = 60, num_search_workers = 8,
                 relative_gap_limit = 5 / 100, random_seed = 42\<rparr>"

definition project_rows :: "namespace \<Rightarrow> solution \<Rightarrow> error + (string \<times> string \<times> string) list" where
  "project_rows ns val =
     (let keys = all_keys (ns_nurses ns) (length (ns_days ns)) (ns_shift_names ns) in
      if list_all (\<lambda>k. ns_work ns k \<noteq> None) keys
      then Inr [(n, ns_days ns ! d, s). (n, d, s) \<leftarrow> filter (\<lambda>k. val (the (ns_work ns k))) keys]
      else Inl KeyError)"

definition solve_and_format :: "env \<Rightarrow> namespace \<Rightarrow> error + response" where
  "solve_and_format env ns =
     (case Solve env parameters (ns_model ns) of
        (st, val) \<Rightarrow>
          if st = OPTIMAL \<or> st = FEASIBLE
          then (case project_rows ns val of
                  Inl e \<Rightarrow> Inl e
                | Inr rows \<Rightarrow> Inr [(''s'', Rows rows)])
          else Inr [(''s'', Rows []), (''error'', Message ''No feasible solution found.'')])"

definition build_and_solve :: "env \<Rightarrow> input_data \<Rightarrow> 'c option \<Rightarrow> error + response" where
  "build_and_solve env input_data constraints =
     (case build_core env input_data of
        Inl e \<Rightarrow> Inl e
      | Inr ns0 \<Rightarrow>
          (case custom_rules env input_data ns0 of
             Inl e \<Rightarrow> Inl e
           | Inr ns \<Rightarrow> solve_and_format env ns))"

section \<open>Notions used to state the claims\<close>

text \<open>
  The generated fragment runs on the scheduler's own objects. \<open>only_adds ns0 ns\<close> says
  that a fragment behaved as the prompt asks: the namespace \<open>ns\<close> it leaves has the
  dictionary \<open>work\<close> and the lists that step 6 reads unchanged, and every constraint of
  \<open>ns0\<close> is still in the model. It holds when no fragment ran.
\<close>

definition only_adds :: "namespace \<Rightarrow> namespace \<Rightarrow> bool" where
  "only_adds ns0 ns \<longleftrightarrow>
     ns_work ns = ns_work ns0 \<and> ns_nurses ns = ns_nurses ns0 \<and> ns_days ns = ns_days ns0
     \<and> ns_shift_names ns = ns_shift_names ns0
     \<and> set (m_constraints (ns_model ns0)) \<subseteq> set (m_constraints (ns_model ns))"

text \<open>The value of \<^verbatim>\<open>work[n, d, s]\<close> in a solution, the number of nurses of a list
  that a solution puts on a shift of a day, the number it puts on any of the working
  shifts, and the hours of a nurse in the week \<open>wk\<close> (days \<open>7 wk\<close> to \<open>7 wk + 6\<close>) with
  the weights AM 7, PM 7, Night 10.\<close>

definition assigned :: "work \<Rightarrow> solution \<Rightarrow> string \<Rightarrow> nat \<Rightarrow> string \<Rightarrow> bool" where
  "assigned w val n d s = val (work_at w n d s)"

definition headcount :: "work \<Rightarrow> solution \<Rightarrow> string list \<Rightarrow> nat \<Rightarrow> string \<Rightarrow> nat" where
  "headcount w val staff d s = length (filter (\<lambda>n. assigned w val n d s) staff)"

definition working_headcount :: "work \<Rightarrow> solution \<Rightarrow> string list \<Rightarrow> nat \<Rightarrow> nat" where
  "working_headcount w val staff d =
     length (filter (\<lambda>n. assigned w val n d ''AM'' \<or> assigned w val n d ''PM'' \<or> assigned w val n d ''Night'') staff)"

definition week_hours :: "work \<Rightarrow> solution \<Rightarrow> string \<Rightarrow> nat \<Rightarrow> int" where
  "week_hours w val n wk =
     (\<Sum>d\<leftarrow>[wk * 7..<wk * 7 + 7].
        7 * of_bool (assigned w val n d ''AM'') + 7 * of_bool (assigned w val n d ''PM'')
        + 10 * of_bool (assigned w val n d ''Night''))"

text \<open>The list that step 6 appends to \<^verbatim>\<open>output["s"]\<close>, in the loop's order.\<close>

definition rows_of :: "work \<Rightarrow> solution \<Rightarrow> string list \<Rightarrow> string list \<Rightarrow> string list \<Rightarrow> (string \<times> string \<times> string) list" where
  "rows_of w val ns days ss =
     [(n, days ! d, s). (n, d, s) \<leftarrow> filter (\<lambda>k. val (the (w k))) (all_keys ns (length days) ss)]"

section \<open>Example environments and inputs\<close>

text \<open>
  The calendar of the first week of July 2024 with the day numbers of
  \<^verbatim>\<open>date.toordinal\<close>, a solver that checks a candidate assignment against the model it is
  given and reports \<open>OPTIMAL\<close> with it or \<open>INFEASIBLE\<close>, a translator that answers with
  one fenced fragment, and the effect of executing that fragment: one more constraint.
\<close>

definition first_week_of_july_2024 :: "(string \<times> int) list" where
  "first_week_of_july_2024 =
     [(''2024-07-01'', 739068), (''2024-07-02'', 739069), (''2024-07-03'', 739070),
      (''2024-07-04'', 739071), (''2024-07-05'', 739072), (''2024-07-06'', 739073),
      (''2024-07-07'', 739074)]"

definition week_strptime :: "string \<Rightarrow> int option" where
  "week_strptime s = map_of first_week_of_july_2024 s"

definition week_strftime :: "int \<Rightarrow> string" where
  "week_strftime z =
     (case find (\<lambda>p. snd p = z) first_week_of_july_2024 of Some p \<Rightarrow> fst p | None \<Rightarrow> [])"

definition checking_solver :: "solution \<Rightarrow> solver_parameters \<Rightarrow> cp_model \<Rightarrow> status \<times> solution" where
  "checking_solver candidate p m =
     (if sat_model m candidate then (OPTIMAL, candidate) else (INFEASIBLE, \<lambda>x. False))"

definition demo_fragment :: string where
  "demo_fragment = ''model.Add(work[nurses[0], 0, shift_names[0]] == 1)''"

definition demo_reply :: string where
  "demo_reply = fence @ ''python'' @ [newline] @ demo_fragment @ [newline] @ fence"

definition demo_exec :: "string \<Rightarrow> namespace \<Rightarrow> string + namespace" where
  "demo_exec snippet ns =
     (if snippet = demo_fragment
      then Inr (ns\<lparr>ns_model :=
                  Add (Linear (Var (work_at (ns_work ns) (ns_nurses ns ! 0) 0 (ns_shift_names ns ! 0)))
                         EQ (Const 1) [])
                    (ns_model ns)\<rparr>)
      else Inl ''invalid syntax'')"

definition demo_rota :: solution where
  "demo_rota x = (x = 0 \<or> x = 6 \<or> x = 12 \<or> x = 19)"

definition demo_env :: env where
  "demo_env =
     \<lparr>strptime = week_strptime, strftime = week_strftime,
      prompt_text = (''NOW GENERATE the code for: '', ''''),
      call_llm = (\<lambda>prompt. Inr demo_reply),
      exec = demo_exec,
      Solve = checking_solver demo_rota\<rparr>"

definition demo_input :: input_data where
  "demo_input =
     \<lparr>seniors = [''S00'', ''S01''], juniors = [''J00'', ''J01''],
      start_date = ''2024-07-01'', end_date = ''2024-07-01'',
      mc_preferences = Some [''J01'' \<mapsto> [''2024-07-01'']],
      min_nurses_per_shift = 1, min_seniors_per_shift = 0,
      min_am_coverage = Some 30, min_senior_am_coverage = Some 50,
      max_hours_per_week = 42, min_hours_per_week = 0,
      rules_text = Some ''S00 takes the first AM shift. '', day_of_week = Some [''Monday'']\<rparr>"

definition demo_core :: namespace where
  "demo_core = core_namespace demo_env demo_input 739068 739068"

definition demo_final :: namespace where
  "demo_final =
     demo_core\<lparr>ns_model := Add (Linear (Var (work_at (ns_work demo_core) ''S00'' 0 ''AM'')) EQ (Const 1) [])
                               (ns_model demo_core)\<rparr>"

text \<open>One nurse over the whole week: AM from Monday to Friday, REST at the weekend.\<close>

definition week_input :: input_data where
  "week_input =
     \<lparr>seniors = [''S00''], juniors = [],
      start_date = ''2024-07-01'', end_date = ''2024-07-07'',
      mc_preferences = None,
      min_nurses_per_shift = 0, min_seniors_per_shift = 0,
      min_am_coverage = Some 30, min_senior_am_coverage = None,
      max_hours_per_week = 42, min_hours_per_week = 35,
      rules_text = None, day_of_week = None\<rparr>"

definition week_rota :: solution where
  "week_rota x = (x = 0 \<or> x = 5 \<or> x = 10 \<or> x = 15 \<or> x = 20 \<or> x = 28 \<or> x = 33)"

definition week_core :: namespace where
  "week_core = core_namespace demo_env week_input 739068 739074"

text \<open>More nurses required on a shift than there are, and a solver that finds nothing;
  an end date before the start date; a translator that answers with a loop over
  \<^verbatim>\<open>days\<close>; and one that answers with an import and an \<^verbatim>\<open>.index\<close> lookup into
  \<^verbatim>\<open>days\<close>, which raises when executed.\<close>

definition understaffed_input :: input_data where
  "understaffed_input = demo_input\<lparr>min_nurses_per_shift := 5, rules_text := None\<rparr>"

definition no_solution_env :: env where
  "no_solution_env = demo_env\<lparr>Solve := (\<lambda>p m. (INFEASIBLE, \<lambda>x. False))\<rparr>"

definition backwards_input :: input_data where
  "backwards_input =
     demo_input\<lparr>start_date := ''2024-07-07'', end_date := ''2024-07-01'', rules_text := None\<rparr>"

definition looping_reply :: string where
  "looping_reply =
     ''for d in days:'' @ [newline] @ ''    model.Add(work[nurses[0], days.index(d), shift_names[0]] == 1)''"

definition looping_env :: env where
  "looping_env = demo_env\<lparr>call_llm := (\<lambda>prompt. Inr looping_reply)\<rparr>"

definition unchecked_reply :: string where
  "unchecked_reply = ''import os'' @ [newline] @ ''d0 = days.index(os.getcwd())''"

definition unchecked_env :: env where
  "unchecked_env =
     demo_env\<lparr>call_llm := (\<lambda>prompt. Inr unchecked_reply),
              exec := (\<lambda>snippet ns. if snippet = unchecked_reply then Inl ''x not in list''
                                     else Inl ''invalid syntax'')\<rparr>"

text \<open>Fragments that the check of step 4 lets through and that do more than add
  constraints: one empties the constraint list of the model, one removes the last nurse
  from the list \<^verbatim>\<open>nurses\<close>. With the first, the solver is given a candidate that puts
  every nurse on PM (or, over the week, on REST).\<close>

definition dropping_fragment :: string where
  "dropping_fragment = ''del model.Proto().constraints[:]''"

definition dropping_exec :: "string \<Rightarrow> namespace \<Rightarrow> string + namespace" where
  "dropping_exec snippet ns =
     (if snippet = dropping_fragment
      then Inr (ns\<lparr>ns_model := (ns_model ns)\<lparr>m_constraints := []\<rparr>\<rparr>)
      else Inl ''invalid syntax'')"

definition pm_rota :: solution where
  "pm_rota x = (x = 1 \<or> x = 6 \<or> x = 11 \<or> x = 16)"

definition dropping_env :: env where
  "dropping_env =
     demo_env\<lparr>call_llm := (\<lambda>prompt. Inr dropping_fragment), exec := dropping_exec,
              Solve := checking_solver pm_rota\<rparr>"

definition demo_dropped :: namespace where
  "demo_dropped = demo_core\<lparr>ns_model := (ns_model demo_core)\<lparr>m_constraints := []\<rparr>\<rparr>"

definition week_rules_input :: input_data where
  "week_rules_input = week_input\<lparr>rules_text := Some ''Forget the core rules.''\<rparr>"

definition rest_rota :: solution where
  "rest_rota x = (x = 3 \<or> x = 8 \<or> x = 13 \<or> x = 18 \<or> x = 23 \<or> x = 28 \<or> x = 33)"

definition week_dropping_env :: env where
  "week_dropping_env = dropping_env\<lparr>Solve := checking_solver rest_rota\<rparr>"

definition week_rules_core :: namespace where
  "week_rules_core = core_namespace week_dropping_env week_rules_input 739068 739074"

definition week_dropped :: namespace where
  "week_dropped = week_rules_core\<lparr>ns_model := (ns_model week_rules_core)\<lparr>m_constraints := []\<rparr>\<rparr>"

definition popping_fragment :: string where
  "popping_fragment = ''nurses.pop()''"

definition popping_exec :: "string \<Rightarrow> namespace \<Rightarrow> string + namespace" where
  "popping_exec snippet ns =
     (if snippet = popping_fragment
      then (if ns_nurses ns = [] then Inl ''pop from empty list''
            else Inr (ns\<lparr>ns_nurses := butlast (ns_nurses ns)\<rparr>))
      else Inl ''invalid syntax'')"

definition popping_env :: env where
  "popping_env = demo_env\<lparr>call_llm := (\<lambda>prompt. Inr popping_fragment), exec := popping_exec\<rparr>"

text \<open>Three seniors and one junior on leave, with one senior required on every shift.\<close>

definition senior_input :: input_data where
  "senior_input =
     \<lparr>seniors = [''S00'', ''S01'', ''S02''], juniors = [''J00''],
      start_date = ''2024-07-01'', end_date = ''2024-07-01'',
      mc_preferences = Some [''J00'' \<mapsto> [''2024-07-01'']],
      min_nurses_per_shift = 1, min_seniors_per_shift = 1,
      min_am_coverage = Some 30, min_senior_am_coverage = Some 30,
      max_hours_per_week = 42, min_hours_per_week = 0,
      rules_text = None, day_of_week = None\<rparr>"

definition senior_core :: namespace where
  "senior_core = core_namespace demo_env senior_input 739068 739068"

section \<open>Facts about the model builder\<close>

lemma m_constraints_add_all: "m_constraints (add_all cs m) = m_constraints m @ cs"
  unfolding add_all_def by (induction cs arbitrary: m) (simp_all add: Add_def)

lemma fold_new_work_var_constraints:
  "m_constraints (fst (fold new_work_var ks (m, w))) = m_constraints m"
  by (induction ks arbitrary: m w) (simp_all add: new_work_var_def NewBoolVar_def)

lemma fold_new_work_var_dom:
  "dom (snd (fold new_work_var ks (m, w))) = dom w \<union> set ks"
  by (induction ks arbitrary: m w) (auto simp: new_work_var_def NewBoolVar_def)

lemma fold_new_work_var_vars:
  "length (m_vars (fst (fold new_work_var ks (m, w)))) = length (m_vars m) + length ks"
  by (induction ks arbitrary: m w) (simp_all add: new_work_var_def NewBoolVar_def)

lemma create_variables_constraints:
  "m_constraints (fst (create_variables nurses D m)) = m_constraints m"
  unfolding create_variables_def by (rule fold_new_work_var_constraints)

lemma create_variables_dom:
  "dom (snd (create_variables nurses D m)) = set (all_keys nurses D shift_names)"
  unfolding create_variables_def by (simp add: fold_new_work_var_dom)

lemma set_all_keys: "set (all_keys ns D ss) = {(n, d, s). n \<in> set ns \<and> d < D \<and> s \<in> set ss}"
  unfolding all_keys_def by (auto simp: image_iff)

text \<open>Every key that steps 2b to 3d read is in the dictionary that step 2 has filled.\<close>

lemma create_variables_defined:
  "n \<in> set nurses \<Longrightarrow> d < D \<Longrightarrow> s \<in> set shift_names \<Longrightarrow>
   \<exists>x. snd (create_variables nurses D m) (n, d, s) = Some x"
  using create_variables_dom [of nurses D m] by (auto simp: set_all_keys)

lemma core_namespace_fields:
  "ns_nurses (core_namespace env inp a b) = seniors inp @ juniors inp"
  "ns_seniors (core_namespace env inp a b) = seniors inp"
  "ns_days (core_namespace env inp a b) = make_days env a b"
  "ns_shift_names (core_namespace env inp a b) = shift_names"
  "ns_work (core_namespace env inp a b) =
     snd (create_variables (seniors inp @ juniors inp) (length (make_days env a b)) CpModel)"
  by (simp_all add: core_namespace_def Let_def split: prod.splits)

lemma core_namespace_constraints:
  "m_constraints (ns_model (core_namespace env inp a b)) =
     core_constraints inp (ns_work (core_namespace env inp a b)) (seniors inp @ juniors inp)
       (seniors inp) (make_days env a b)"
proof -
  obtain m w where mw:
    "create_variables (seniors inp @ juniors inp) (length (make_days env a b)) CpModel = (m, w)"
    by (cases "create_variables (seniors inp @ juniors inp) (length (make_days env a b)) CpModel")
  have "m_constraints m = []"
    using create_variables_constraints [of "seniors inp @ juniors inp" "length (make_days env a b)" CpModel]
    unfolding mw by (simp add: CpModel_def)
  then show ?thesis
    by (simp add: core_namespace_def Let_def mw m_constraints_add_all)
qed

lemma length_make_days: "length (make_days env a b) = nat (b - a + 1)"
  by (simp add: make_days_def)

subsection \<open>Solutions of a model that contains the core rules\<close>

lemma only_adds_refl: "only_adds ns ns"
  by (simp add: only_adds_def)

lemma sat_model_mono:
  "set (m_constraints m0) \<subseteq> set (m_constraints m) \<Longrightarrow> sat_model m v \<Longrightarrow> sat_model m0 v"
  by (auto simp: sat_model_def list_all_iff)

lemma sat_core:
  assumes "only_adds (core_namespace env inp a b) ns" "sat_model (ns_model ns) val"
  shows "list_all (holds val)
           (core_constraints inp (ns_work (core_namespace env inp a b)) (seniors inp @ juniors inp)
              (seniors inp) (make_days env a b))"
  using sat_model_mono [of "ns_model (core_namespace env inp a b)" "ns_model ns" val] assms
  by (simp add: only_adds_def sat_model_def core_namespace_constraints)

lemma build_core_Inr:
  assumes "build_core env inp = Inr ns0"
  obtains a b where "strptime env (start_date inp) = Some a" "strptime env (end_date inp) = Some b"
    "ns0 = core_namespace env inp a b"
  using assms by (auto simp: build_core_def split: option.splits)

lemma sat_core_constraints:
  assumes "build_core env inp = Inr ns0" "only_adds ns0 ns" "sat_model (ns_model ns) val"
  shows "list_all (holds val)
           (core_constraints inp (ns_work ns0) (seniors inp @ juniors inp) (seniors inp) (ns_days ns0))"
proof -
  obtain a b where "ns0 = core_namespace env inp a b"
    using assms(1) by (rule build_core_Inr)
  then show ?thesis
    using sat_core [of env inp a b ns val] assms(2,3) by (simp add: core_namespace_fields)
qed

lemma core_parts:
  assumes "list_all (holds val) (core_constraints inp w nurses snrs days)"
  shows "list_all (holds val) (leave_constraints inp w nurses days)"
    and "list_all (holds val) (single_assignment w nurses (length days))"
    and "list_all (holds val) (shift_coverage inp w nurses snrs (length days))"
    and "list_all (holds val) (percentage_coverage inp w nurses snrs (length days))"
    and "list_all (holds val) (weekly_hours inp w nurses (length days))"
  using assms by (simp_all add: core_constraints_def)

lemma eval_Sum_Var:
  "eval v (Sum (map (\<lambda>x. Var (f x)) xs)) = int (length (filter (\<lambda>x. v (f x)) xs))"
  by (induction xs) simp_all

lemma sum_list_concat_int: "sum_list (concat xss) = (\<Sum>xs\<leftarrow>xss. sum_list xs :: int)"
  by (induction xss) simp_all

lemma holds_shift_coverage:
  assumes "list_all (holds val) (shift_coverage inp w nurses snrs D)" "d < D" "s \<in> set working_shifts"
  shows "min_nurses_per_shift inp \<le> int (headcount w val nurses d s)
       \<and> min_seniors_per_shift inp \<le> int (headcount w val snrs d s)"
proof -
  have "list_all (holds val) (coverage_pair inp w nurses snrs d s)"
    using assms by (auto simp: shift_coverage_def list_all_iff)
  then show ?thesis
    by (simp add: coverage_pair_def eval_Sum_Var headcount_def assigned_def del: eval.simps(3))
qed

lemma holds_weekly_hours:
  assumes "list_all (holds val) (weekly_hours inp w nurses D)" "n \<in> set nurses" "wk < D div 7"
  shows "eval val (week_total w n wk) \<le> max_hours_per_week inp
       \<and> min_hours_per_week inp \<le> eval val (week_total w n wk)"
proof -
  have "list_all (holds val) (week_pair inp w n wk)"
    using assms by (auto simp: weekly_hours_def list_all_iff)
  then show ?thesis by (simp add: week_pair_def)
qed

lemma shift_hours_simps:
  "shift_hours ''AM'' = Some 7" "shift_hours ''PM'' = Some 7" "shift_hours ''Night'' = Some 10"
  by (simp_all add: shift_hours_def)

lemma eval_week_total: "eval val (week_total w n wk) = week_hours w val n wk"
proof -
  have "eval val (week_total w n wk) =
        (\<Sum>d\<leftarrow>[wk * 7..<(wk + 1) * 7]. \<Sum>s\<leftarrow>working_shifts.
            the (shift_hours s) * of_bool (val (work_at w n d s)))"
    by (simp add: week_total_def map_concat comp_def sum_list_concat_int of_bool_def)
  also have "\<dots> = week_hours w val n wk"
    by (simp add: week_hours_def working_shifts_def shift_hours_simps assigned_def ac_simps)
  finally show ?thesis .
qed

lemma holds_single_assignment:
  assumes "list_all (holds val) (single_assignment w nurses D)" "n \<in> set nurses" "d < D"
  shows "length (filter (\<lambda>s. val (work_at w n d s)) shift_names) = 1"
proof -
  have "holds val (one_shift w n d)"
    using assms by (auto simp: single_assignment_def list_all_iff)
  then have "int (length (filter (\<lambda>s. val (work_at w n d s)) shift_names)) = 1"
    by (simp add: one_shift_def eval_Sum_Var del: eval.simps(3))
  then show ?thesis by simp
qed

lemma holds_leave_constraints:
  assumes "list_all (holds val) (leave_constraints inp w nurses days)" "n \<in> set nurses" "d < length days"
  shows "val (work_at w n d ''MC'') \<longleftrightarrow> days ! d \<in> set (declared_dates inp n)"
proof -
  have "(d, days ! d) \<in> set (enumerate 0 days)"
    using assms(3) by (simp add: in_set_enumerate_eq)
  then have "holds val (mc_constraint inp w n (d, days ! d))"
    using assms(1,2) by (auto simp: leave_constraints_def list_all_iff)
  then show ?thesis
    by (simp add: mc_constraint_def split: if_splits)
qed

lemma one_shift_cases:
  assumes "length (filter P shift_names) = 1"
  shows "(P ''MC'' \<longrightarrow> \<not> P ''AM'' \<and> \<not> P ''PM'' \<and> \<not> P ''Night'' \<and> \<not> P ''REST'')"
    and "\<exists>s. filter P shift_names = [s]"
    and "(\<Sum>s\<leftarrow>working_shifts. of_bool (P s)) = (of_bool (P ''AM'' \<or> P ''PM'' \<or> P ''Night'') :: int)"
proof -
  show "(P ''MC'' \<longrightarrow> \<not> P ''AM'' \<and> \<not> P ''PM'' \<and> \<not> P ''Night'' \<and> \<not> P ''REST'')"
    using assms by (simp add: shift_names_def split: if_splits)
  show "\<exists>s. filter P shift_names = [s]"
    using assms by (cases "filter P shift_names") simp_all
  show "(\<Sum>s\<leftarrow>working_shifts. of_bool (P s)) = (of_bool (P ''AM'' \<or> P ''PM'' \<or> P ''Night'') :: int)"
    using assms by (simp add: shift_names_def working_shifts_def split: if_splits)
qed




lemma one_shift_per_nurse_day:
  assumes "build_core env inp = Inr ns0" "only_adds ns0 ns" "sat_model (ns_model ns) val"
    "n \<in> set (seniors inp @ juniors inp)" "d < length (ns_days ns0)"
  shows "length (filter (\<lambda>s. val (work_at (ns_work ns0) n d s)) shift_names) = 1"
  using holds_single_assignment [OF core_parts(2) [OF sat_core_constraints [OF assms(1-3)]] assms(4,5)] .

subsection \<open>The projected rows\<close>

lemma rows_of_unfold:
  "rows_of w val ns days ss =
     concat (map (\<lambda>n. concat (map (\<lambda>d. map (\<lambda>s. (n, days ! d, s))
                                         (filter (\<lambda>s. val (the (w (n, d, s)))) ss))
                                 [0..<length days])) ns)"
  by (simp add: rows_of_def all_keys_def filter_concat map_concat filter_map comp_def)

lemma set_rows_of:
  "(n, dt, s) \<in> set (rows_of w val ns days ss) \<longleftrightarrow>
     n \<in> set ns \<and> s \<in> set ss \<and> (\<exists>d < length days. dt = days ! d \<and> val (the (w (n, d, s))))"
  by (auto simp: rows_of_unfold image_iff)

lemma concat_singletons:
  assumes "\<And>x. x \<in> set xs \<Longrightarrow> \<exists>s. f x = [s]"
  shows "concat (map (\<lambda>x. map (\<lambda>s. g x) (f x)) xs) = map g xs"
  using assms
proof (induction xs)
  case Nil
  then show ?case by simp
next
  case (Cons x xs)
  obtain s where "f x = [s]" using Cons.prems [of x] by auto
  then show ?case using Cons by simp
qed

lemma rows_of_grid:
  assumes "\<And>n d. n \<in> set ns \<Longrightarrow> d < length days \<Longrightarrow> \<exists>s. filter (\<lambda>s. val (the (w (n, d, s)))) ss = [s]"
  shows "map (\<lambda>(n, dt, s). (n, dt)) (rows_of w val ns days ss) = [(n, dt). n \<leftarrow> ns, dt \<leftarrow> days]"
proof -
  have inner: "concat (map (\<lambda>d. map (\<lambda>s. (n, days ! d)) (filter (\<lambda>s. val (the (w (n, d, s)))) ss))
                       [0..<length days]) = map (Pair n) days" if "n \<in> set ns" for n
  proof -
    have "concat (map (\<lambda>d. map (\<lambda>s. (n, days ! d)) (filter (\<lambda>s. val (the (w (n, d, s)))) ss))
                       [0..<length days]) = map (\<lambda>d. (n, days ! d)) [0..<length days]"
      by (rule concat_singletons) (use assms that in auto)
    also have "\<dots> = map (Pair n) (map (nth days) [0..<length days])"
      by simp
    also have "\<dots> = map (Pair n) days"
      by (simp only: map_nth)
    finally show ?thesis .
  qed
  have "map (\<lambda>(n, dt, s). (n, dt)) (rows_of w val ns days ss) =
        concat (map (\<lambda>n. concat (map (\<lambda>d. map (\<lambda>s. (n, days ! d))
                                         (filter (\<lambda>s. val (the (w (n, d, s)))) ss))
                                 [0..<length days])) ns)"
    by (simp add: rows_of_unfold map_concat comp_def)
  also have "\<dots> = concat (map (\<lambda>n. map (Pair n) days) ns)"
    by (intro arg_cong [where f = concat] map_cong refl inner)
  finally show ?thesis by simp
qed

lemma length_grid: "length [(n, dt). n \<leftarrow> ns, dt \<leftarrow> (days :: 'b list)] = length ns * length days"
  by (induction ns) simp_all

lemma project_rows_core:
  assumes "build_core env inp = Inr ns0" "only_adds ns0 ns"
  shows "project_rows ns val =
           Inr (rows_of (ns_work ns0) val (seniors inp @ juniors inp) (ns_days ns0) shift_names)"
proof -
  obtain a b where ns0: "ns0 = core_namespace env inp a b"
    using assms(1) by (rule build_core_Inr)
  have eqs: "ns_work ns = ns_work ns0" "ns_nurses ns = seniors inp @ juniors inp"
    "ns_days ns = ns_days ns0" "ns_shift_names ns = shift_names"
    using assms(2) by (simp_all add: only_adds_def ns0 core_namespace_fields)
  have "dom (ns_work ns0) = set (all_keys (seniors inp @ juniors inp) (length (ns_days ns0)) shift_names)"
    by (simp add: ns0 core_namespace_fields create_variables_dom)
  then have "list_all (\<lambda>k. ns_work ns0 k \<noteq> None)
               (all_keys (seniors inp @ juniors inp) (length (ns_days ns0)) shift_names)"
    by (auto simp: list_all_iff)
  then show ?thesis
    by (simp add: project_rows_def eqs rows_of_def)
qed

lemma build_and_solve_success:
  assumes "build_core env inp = Inr ns0" "custom_rules env inp ns0 = Inr ns" "only_adds ns0 ns"
    "Solve env parameters (ns_model ns) = (st, val)" "st = OPTIMAL \<or> st = FEASIBLE"
  shows "build_and_solve env inp cs =
           Inr [(''s'', Rows (rows_of (ns_work ns0) val (seniors inp @ juniors inp) (ns_days ns0) shift_names))]"
  using assms(5)
  by (auto simp add: build_and_solve_def assms(1,2,4) solve_and_format_def
        project_rows_core [OF assms(1,3)])

subsection \<open>Custom rules, empty horizons, leave declarations\<close>

lemma build_core_exec_irrelevant: "build_core (env\<lparr>exec := run\<rparr>) inp = build_core env inp"
  by (simp add: build_core_def core_namespace_def make_days_def split: option.splits)

lemma custom_rules_blank:
  "strip (case rules_text inp of None \<Rightarrow> [] | Some t \<Rightarrow> t) = [] \<Longrightarrow> custom_rules env inp ns = Inr ns"
  by (simp add: custom_rules_def)

lemma strip_Nil: "strip [] = []"
  by (simp add: strip_def)

lemma all_keys_no_days: "all_keys ns 0 ss = []"
  by (simp add: all_keys_def)

lemma core_constraints_no_days: "core_constraints inp w nurses snrs [] = []"
  by (simp add: core_constraints_def leave_constraints_def single_assignment_def shift_coverage_def
        percentage_coverage_def weekly_hours_def enumerate_eq_zip)





subsection \<open>The examples evaluated\<close>

lemma demo_build_core: "build_core demo_env demo_input = Inr demo_core"
  by (simp add: build_core_def demo_env_def demo_input_def demo_core_def week_strptime_def
        first_week_of_july_2024_def)

lemma demo_clean: "clean_snippet demo_reply = demo_fragment"
  by code_simp

lemma demo_not_forbidden: "find (\<lambda>f. contains f demo_fragment) forbidden = None"
  by code_simp

lemma demo_strip: "strip ''S00 takes the first AM shift. '' \<noteq> []"
  by code_simp

lemma demo_core_fields:
  "ns_nurses demo_core = [''S00'', ''S01'', ''J00'', ''J01'']"
  "ns_shift_names demo_core = shift_names"
  "ns_days demo_core = [''2024-07-01'']"
  by (simp_all add: demo_core_def core_namespace_fields demo_input_def make_days_def demo_env_def
        week_strftime_def first_week_of_july_2024_def)

lemma demo_custom_rules: "custom_rules demo_env demo_input demo_core = Inr demo_final"
proof -
  have "call_llm demo_env p = Inr demo_reply" for p
    by (simp add: demo_env_def)
  moreover have "exec demo_env demo_fragment demo_core = Inr demo_final"
    by (simp add: demo_env_def demo_exec_def demo_final_def demo_core_fields shift_names_def)
  moreover have "rules_text demo_input = Some ''S00 takes the first AM shift. ''"
    by (simp add: demo_input_def)
  ultimately show ?thesis
    using demo_strip by (simp add: custom_rules_def demo_clean demo_not_forbidden)
qed

lemma demo_only_adds: "only_adds demo_core demo_final"
  by (auto simp: only_adds_def demo_final_def Add_def)

lemma demo_sat: "sat_model (ns_model demo_final) demo_rota"
  by code_simp

lemma demo_solve: "Solve demo_env parameters (ns_model demo_final) = (OPTIMAL, demo_rota)"
  by (simp add: demo_env_def checking_solver_def demo_sat)

lemma demo_input_fields:
  "seniors demo_input = [''S00'', ''S01'']" "juniors demo_input = [''J00'', ''J01'']"
  "min_nurses_per_shift demo_input = 1" "min_seniors_per_shift demo_input = 0"
  "min_am_pct demo_input = 30" "min_senior_am_pct demo_input = 50"
  "declared_dates demo_input ''J01'' = [''2024-07-01'']"
  by (simp_all add: demo_input_def min_am_pct_def min_senior_am_pct_def declared_dates_def)

lemma week_build_core: "build_core demo_env week_input = Inr week_core"
  by (simp add: build_core_def demo_env_def week_input_def week_core_def week_strptime_def
        first_week_of_july_2024_def)

lemma week_sat: "sat_model (ns_model week_core) week_rota"
  by code_simp

lemma week_days: "length (ns_days week_core) = 7"
  by (simp add: week_core_def core_namespace_fields length_make_days)

lemma week_input_fields:
  "seniors week_input = [''S00'']" "juniors week_input = []"
  "min_hours_per_week week_input = 35" "max_hours_per_week week_input = 42"
  by (simp_all add: week_input_def)

lemma looping_build_core:
  "build_core looping_env demo_input = Inr (core_namespace looping_env demo_input 739068 739068)"
  by (simp add: build_core_def looping_env_def demo_env_def demo_input_def week_strptime_def
        first_week_of_july_2024_def)

lemma looping_contains: "contains ''for d in days'' (clean_snippet looping_reply)"
  by code_simp

lemma unchecked_clean: "clean_snippet unchecked_reply = unchecked_reply"
  by code_simp

lemma unchecked_not_forbidden: "find (\<lambda>f. contains f unchecked_reply) forbidden = None"
  by code_simp

lemma unchecked_contains:
  "contains ''import os'' unchecked_reply" "contains ''days.index('' unchecked_reply"
  by code_simp+

lemma backwards_dates:
  "strptime demo_env (start_date backwards_input) = Some 739074"
  "strptime demo_env (end_date backwards_input) = Some 739068"
  by (simp_all add: demo_env_def backwards_input_def week_strptime_def first_week_of_july_2024_def)

lemma core_namespace_strftime:
  "strftime env' = strftime env \<Longrightarrow> core_namespace env' inp a b = core_namespace env inp a b"
  by (simp add: core_namespace_def make_days_def)

lemma build_core_same_calendar:
  assumes "strptime env' = strptime env" "strftime env' = strftime env"
  shows "build_core env' inp = build_core env inp"
  by (simp add: build_core_def assms(1) core_namespace_strftime [OF assms(2)] split: option.splits)

lemma dropping_build_core: "build_core dropping_env demo_input = Inr demo_core"
proof -
  have "build_core dropping_env demo_input = build_core demo_env demo_input"
    by (rule build_core_same_calendar) (simp_all add: dropping_env_def)
  then show ?thesis by (simp add: demo_build_core)
qed

lemma dropping_clean: "clean_snippet dropping_fragment = dropping_fragment"
  by code_simp

lemma dropping_not_forbidden: "find (\<lambda>f. contains f dropping_fragment) forbidden = None"
  by code_simp

lemma dropping_custom_rules: "custom_rules dropping_env demo_input demo_core = Inr demo_dropped"
proof -
  have "call_llm dropping_env p = Inr dropping_fragment" for p
    by (simp add: dropping_env_def)
  moreover have "exec dropping_env dropping_fragment demo_core = Inr demo_dropped"
    by (simp add: dropping_env_def dropping_exec_def demo_dropped_def)
  moreover have "rules_text demo_input = Some ''S00 takes the first AM shift. ''"
    by (simp add: demo_input_def)
  ultimately show ?thesis
    using demo_strip by (simp add: custom_rules_def dropping_clean dropping_not_forbidden)
qed

lemma dropped_sat: "sat_model (ns_model demo_dropped) val"
  by (simp add: sat_model_def demo_dropped_def)

lemma dropping_solve: "Solve dropping_env parameters (ns_model demo_dropped) = (OPTIMAL, pm_rota)"
  by (simp add: dropping_env_def checking_solver_def dropped_sat)

lemma dropping_result:
  "build_and_solve dropping_env demo_input (None :: unit option) =
     Inr [(''s'', Rows [(''S00'', ''2024-07-01'', ''PM''), (''S01'', ''2024-07-01'', ''PM''),
                        (''J00'', ''2024-07-01'', ''PM''), (''J01'', ''2024-07-01'', ''PM'')])]"
  by code_simp

lemma pm_rota_values:
  "assigned (ns_work demo_core) pm_rota ''J01'' 0 ''PM''"
  "\<not> assigned (ns_work demo_core) pm_rota ''J01'' 0 ''MC''"
  "headcount (ns_work demo_core) pm_rota [''S00'', ''S01'', ''J00'', ''J01''] 0 ''AM'' = 0"
  "headcount (ns_work demo_core) pm_rota [''S00'', ''S01'', ''J00'', ''J01''] 0 ''Night'' = 0"
  "working_headcount (ns_work demo_core) pm_rota [''S00'', ''S01'', ''J00'', ''J01''] 0 = 4"
  by code_simp+

lemma week_rules_build_core: "build_core week_dropping_env week_rules_input = Inr week_rules_core"
  by (simp add: build_core_def week_dropping_env_def dropping_env_def demo_env_def week_rules_input_def
        week_input_def week_rules_core_def week_strptime_def first_week_of_july_2024_def)

lemma week_rules_strip: "strip ''Forget the core rules.'' \<noteq> []"
  by code_simp

lemma week_rules_custom_rules:
  "custom_rules week_dropping_env week_rules_input week_rules_core = Inr week_dropped"
proof -
  have "call_llm week_dropping_env p = Inr dropping_fragment" for p
    by (simp add: week_dropping_env_def dropping_env_def)
  moreover have "exec week_dropping_env dropping_fragment week_rules_core = Inr week_dropped"
    by (simp add: week_dropping_env_def dropping_env_def dropping_exec_def week_dropped_def)
  moreover have "rules_text week_rules_input = Some ''Forget the core rules.''"
    by (simp add: week_rules_input_def)
  ultimately show ?thesis
    using week_rules_strip by (simp add: custom_rules_def dropping_clean dropping_not_forbidden)
qed

lemma week_dropped_sat: "sat_model (ns_model week_dropped) val"
  by (simp add: sat_model_def week_dropped_def)

lemma week_dropping_solve:
  "Solve week_dropping_env parameters (ns_model week_dropped) = (OPTIMAL, rest_rota)"
  by (simp add: week_dropping_env_def checking_solver_def week_dropped_sat)

lemma rest_rota_hours: "week_hours (ns_work week_rules_core) rest_rota ''S00'' 0 = 0"
  by code_simp

lemma week_rules_fields:
  "min_hours_per_week week_rules_input = 35" "seniors week_rules_input @ juniors week_rules_input = [''S00'']"
  "length (ns_days week_rules_core) = 7"
  by (simp_all add: week_rules_input_def week_input_def week_rules_core_def core_namespace_fields
        length_make_days)

lemma popping_result:
  "build_and_solve popping_env demo_input (None :: unit option) =
     Inr [(''s'', Rows [(''S00'', ''2024-07-01'', ''AM''), (''S01'', ''2024-07-01'', ''PM''),
                        (''J00'', ''2024-07-01'', ''Night'')])]"
  by code_simp

lemma senior_build_core: "build_core demo_env senior_input = Inr senior_core"
  by (simp add: build_core_def demo_env_def senior_input_def senior_core_def week_strptime_def
        first_week_of_july_2024_def)

lemma senior_sat: "sat_model (ns_model senior_core) demo_rota"
  by code_simp

lemma senior_fields:
  "seniors senior_input = [''S00'', ''S01'', ''S02'']" "juniors senior_input = [''J00'']"
  "min_nurses_per_shift senior_input = 1" "min_seniors_per_shift senior_input = 1"
  "length (ns_days senior_core) = 1"
  by (simp_all add: senior_input_def senior_core_def core_namespace_fields length_make_days)

section \<open>The claims\<close>

text \<open>
  In the theorems below a solution of a successful solve is an assignment \<open>val\<close> that
  satisfies the model handed to the solver, \<open>sat_model (ns_model ns) val\<close>, where \<open>ns\<close> is
  the namespace after step 4 and \<open>only_adds ns0 ns\<close> relates it to the namespace \<open>ns0\<close>
  that steps 1 to 3 build.
\<close>

text \<open>
  C1. The check before execution is a substring test for four patterns:
  if the cleaned fragment contains \<^verbatim>\<open>shift_names.index\<close>, \<^verbatim>\<open>for d in days\<close>,
  \<^verbatim>\<open>for d in days[:-1]\<close> or \<^verbatim>\<open>for d in days[1:]\<close>, then \<^verbatim>\<open>build_and_solve\<close> raises
  \<^verbatim>\<open>RuntimeError\<close> naming the first such pattern of the list, and it does so before
  executing any part of the fragment: the result is the same whatever execution would do.
  No model is returned. There is no check of the symbols a fragment references, and an
  \<^verbatim>\<open>.index\<close> lookup into \<^verbatim>\<open>days\<close> is not among the patterns.
\<close>

theorem forbidden_pattern_rejected:
  assumes "build_core env inp = Inr ns0"
    and "strip (case rules_text inp of None \<Rightarrow> [] | Some t \<Rightarrow> t) = custom" "custom \<noteq> []"
    and "call_llm env (build_codegen_prompt env custom) = Inr raw"
    and "f \<in> set forbidden" "contains f (clean_snippet raw)"
  shows "\<exists>f'. find (\<lambda>f. contains f (clean_snippet raw)) forbidden = Some f'
           \<and> (\<forall>run. build_and_solve (env\<lparr>exec := run\<rparr>) inp cs =
                 Inl (RuntimeError (''LLM code contains forbidden pattern: '' @ f' @ [newline]
                                    @ clean_snippet raw)))"
proof -
  obtain f' where f': "find (\<lambda>f. contains f (clean_snippet raw)) forbidden = Some f'"
    using assms(5,6) by (cases "find (\<lambda>f. contains f (clean_snippet raw)) forbidden")
      (auto simp: find_None_iff)
  have "build_and_solve (env\<lparr>exec := run\<rparr>) inp cs =
          Inl (RuntimeError (''LLM code contains forbidden pattern: '' @ f' @ [newline] @ clean_snippet raw))"
    for run
    using assms(1-4) f'
    by (simp add: build_and_solve_def build_core_exec_irrelevant custom_rules_def
          build_codegen_prompt_def)
  then show ?thesis using f' by blast
qed

theorem forbidden_pattern_rejected_witness:
  "\<exists>f'. find (\<lambda>f. contains f (clean_snippet looping_reply)) forbidden = Some f'
        \<and> (\<forall>run. build_and_solve (looping_env\<lparr>exec := run\<rparr>) demo_input (None :: unit option) =
              Inl (RuntimeError (''LLM code contains forbidden pattern: '' @ f' @ [newline]
                                 @ clean_snippet looping_reply)))"
proof -
  have rules: "strip (case rules_text demo_input of None \<Rightarrow> [] | Some t \<Rightarrow> t)
                 = strip ''S00 takes the first AM shift. ''"
    by (simp add: demo_input_def)
  have llm: "call_llm looping_env (build_codegen_prompt looping_env (strip ''S00 takes the first AM shift. ''))
               = Inr looping_reply"
    by (simp add: looping_env_def)
  have mem: "''for d in days'' \<in> set forbidden"
    by (simp add: forbidden_def)
  show ?thesis
    using forbidden_pattern_rejected [OF looping_build_core rules demo_strip llm mem looping_contains] .
qed

text \<open>
  C1, where the check ends: a fragment that imports \<^verbatim>\<open>os\<close> and looks a string up in \<^verbatim>\<open>days\<close>
  with \<^verbatim>\<open>.index\<close> passes the check and is executed; the error returned is the one
  raised by its execution.
\<close>

theorem unchecked_fragment_is_executed:
  "contains ''import os'' unchecked_reply \<and> contains ''days.index('' unchecked_reply
   \<and> build_and_solve unchecked_env demo_input (None :: unit option) =
       Inl (RuntimeError (''Error executing custom-rule code:'' @ [newline] @ unchecked_reply
                          @ [newline, newline] @ ''x not in list''))"
proof -
  have "build_core unchecked_env demo_input = Inr (core_namespace unchecked_env demo_input 739068 739068)"
    by (simp add: build_core_def unchecked_env_def demo_env_def demo_input_def week_strptime_def
          first_week_of_july_2024_def)
  moreover have "custom_rules unchecked_env demo_input ns =
       Inl (RuntimeError (''Error executing custom-rule code:'' @ [newline] @ unchecked_reply
                          @ [newline, newline] @ ''x not in list''))" for ns
  proof -
    have "rules_text demo_input = Some ''S00 takes the first AM shift. ''"
      by (simp add: demo_input_def)
    moreover have "call_llm unchecked_env p = Inr unchecked_reply" for p
      by (simp add: unchecked_env_def)
    moreover have "exec unchecked_env unchecked_reply ns = Inl ''x not in list''"
      by (simp add: unchecked_env_def)
    ultimately show ?thesis
      using demo_strip by (simp add: custom_rules_def unchecked_clean unchecked_not_forbidden)
  qed
  ultimately show ?thesis
    by (simp add: build_and_solve_def unchecked_contains)
qed

text \<open>
  C2. The result has one of two shapes. After a successful solve (status
  \<open>OPTIMAL\<close> or \<open>FEASIBLE\<close>) its only key is \<^verbatim>\<open>"s"\<close>. After an unsuccessful solve it has
  both keys: \<^verbatim>\<open>"s"\<close> with the empty list and \<^verbatim>\<open>"error"\<close> with the message.
\<close>

theorem response_shapes:
  assumes "build_core env inp = Inr ns0" "custom_rules env inp ns0 = Inr ns"
    "Solve env parameters (ns_model ns) = (st, val)" "build_and_solve env inp cs = Inr out"
  shows "if st = OPTIMAL \<or> st = FEASIBLE then (\<exists>rows. out = [(''s'', Rows rows)])
         else out = [(''s'', Rows []), (''error'', Message ''No feasible solution found.'')]"
  using assms(4)
  by (auto simp: build_and_solve_def assms(1,2,3) solve_and_format_def split: sum.splits)

theorem response_shapes_witness:
  "\<exists>rows. build_and_solve demo_env demo_input (None :: unit option) = Inr [(''s'', Rows rows)]"
proof -
  let ?out = "[(''s'', Rows (rows_of (ns_work demo_core) demo_rota (seniors demo_input @ juniors demo_input)
                              (ns_days demo_core) shift_names))]"
  have out: "build_and_solve demo_env demo_input (None :: unit option) = Inr ?out"
    by (rule build_and_solve_success [OF demo_build_core demo_custom_rules demo_only_adds demo_solve]) simp
  from response_shapes [OF demo_build_core demo_custom_rules demo_solve out]
  show ?thesis using out by simp
qed

text \<open>
  C2, the unsuccessful shape on an example: when the request asks for more nurses on a shift than there are and
  the solver finds nothing, the result contains the key \<^verbatim>\<open>"s"\<close> and the key
  \<^verbatim>\<open>"error"\<close> at once.
\<close>

theorem failed_solve_has_both_keys:
  "build_and_solve no_solution_env understaffed_input (None :: unit option) =
     Inr [(''s'', Rows []), (''error'', Message ''No feasible solution found.'')]"
proof -
  have "build_core no_solution_env understaffed_input =
          Inr (core_namespace no_solution_env understaffed_input 739068 739068)"
    by (simp add: build_core_def no_solution_env_def understaffed_input_def demo_env_def demo_input_def
          week_strptime_def first_week_of_july_2024_def)
  moreover have "custom_rules no_solution_env understaffed_input ns = Inr ns" for ns
    by (rule custom_rules_blank) (simp add: understaffed_input_def strip_Nil)
  moreover have "Solve no_solution_env p m = (INFEASIBLE, \<lambda>x. False)" for p m
    by (simp add: no_solution_env_def)
  ultimately show ?thesis
    by (simp add: build_and_solve_def solve_and_format_def)
qed

text \<open>
  C3. For an end date strictly earlier than the start date the scheduler
  does not fail: steps 1 to 3 succeed with an empty day sequence, no variables and no
  constraints, and when there is no custom rule the call returns a result whose first
  entry is \<^verbatim>\<open>"s"\<close> with the empty list.
\<close>

theorem reversed_range_builds_empty_model:
  assumes "strptime env (start_date inp) = Some a" "strptime env (end_date inp) = Some b" "b < a"
  shows "build_core env inp = Inr (core_namespace env inp a b)
       \<and> ns_days (core_namespace env inp a b) = []
       \<and> m_vars (ns_model (core_namespace env inp a b)) = []
       \<and> m_constraints (ns_model (core_namespace env inp a b)) = []
       \<and> (strip (case rules_text inp of None \<Rightarrow> [] | Some t \<Rightarrow> t) = [] \<longrightarrow>
            (\<exists>out. build_and_solve env inp cs = Inr out \<and> hd out = (''s'', Rows [])))"
proof -
  let ?ns = "core_namespace env inp a b"
  have core: "build_core env inp = Inr ?ns"
    by (simp add: build_core_def assms(1,2))
  have days: "make_days env a b = []"
    using assms(3) by (simp add: make_days_def)
  have model: "ns_model ?ns = CpModel"
    by (simp add: core_namespace_def days create_variables_def all_keys_no_days
          core_constraints_no_days add_all_def)
  have rows: "project_rows ?ns val = Inr []" for val
    by (simp add: project_rows_def core_namespace_fields days all_keys_no_days)
  have "\<exists>out. build_and_solve env inp cs = Inr out \<and> hd out = (''s'', Rows [])"
    if "strip (case rules_text inp of None \<Rightarrow> [] | Some t \<Rightarrow> t) = []"
    by (cases "Solve env parameters CpModel")
      (simp add: build_and_solve_def core custom_rules_blank [OF that] solve_and_format_def model rows)
  then show ?thesis
    by (simp add: core core_namespace_fields days model CpModel_def)
qed

theorem reversed_range_builds_empty_model_witness:
  "build_core demo_env backwards_input = Inr (core_namespace demo_env backwards_input 739074 739068)
   \<and> ns_days (core_namespace demo_env backwards_input 739074 739068) = []
   \<and> m_vars (ns_model (core_namespace demo_env backwards_input 739074 739068)) = []
   \<and> m_constraints (ns_model (core_namespace demo_env backwards_input 739074 739068)) = []"
  using reversed_range_builds_empty_model [OF backwards_dates, of "None :: unit option"] by simp

text \<open>
  C3 on an example: from 2024-07-07 to 2024-07-01 the call raises nothing and returns
  the successful shape with no rows.
\<close>

theorem reversed_range_returns_schedule:
  "build_and_solve demo_env backwards_input (None :: unit option) = Inr [(''s'', Rows [])]"
  by code_simp

text \<open>
  C4. Provided the custom-rule fragment, if there is one, only adds constraints
  (\<open>only_adds\<close>: it leaves \<^verbatim>\<open>work\<close>, \<^verbatim>\<open>nurses\<close>, \<^verbatim>\<open>days\<close> and \<^verbatim>\<open>shift_names\<close>
  unchanged and removes no constraint; the code does not enforce this), in every solution
  of a successful solve, for every nurse of the roster and every day of the horizon: if
  the day's date is declared for the nurse in
  \<^verbatim>\<open>mc_preferences\<close>, the nurse's MC variable is 1 and the variables of AM, PM, Night and
  REST are 0; otherwise the MC variable is 0. In the projected rows the shift is MC
  exactly for the (nurse, date) pairs that are declared.
\<close>

theorem declared_leave_honoured:
  assumes "build_core env inp = Inr ns0" "custom_rules env inp ns0 = Inr ns" "only_adds ns0 ns"
    "Solve env parameters (ns_model ns) = (st, val)" "st = OPTIMAL \<or> st = FEASIBLE"
    "sat_model (ns_model ns) val"
    "n \<in> set (seniors inp @ juniors inp)" "d < length (ns_days ns0)"
  shows "(if ns_days ns0 ! d \<in> set (declared_dates inp n)
          then assigned (ns_work ns0) val n d ''MC'' \<and> \<not> assigned (ns_work ns0) val n d ''AM''
               \<and> \<not> assigned (ns_work ns0) val n d ''PM'' \<and> \<not> assigned (ns_work ns0) val n d ''Night''
               \<and> \<not> assigned (ns_work ns0) val n d ''REST''
          else \<not> assigned (ns_work ns0) val n d ''MC'')
       \<and> (\<exists>rows. build_and_solve env inp cs = Inr [(''s'', Rows rows)]
             \<and> list_all (\<lambda>(n', dt, s). (s = ''MC'') = (dt \<in> set (declared_dates inp n'))) rows)"
proof -
  let ?w = "ns_work ns0" and ?nurses = "seniors inp @ juniors inp" and ?days = "ns_days ns0"
  note core = sat_core_constraints [OF assms(1,3,6)]
  have mc: "val (work_at ?w n' d' ''MC'') \<longleftrightarrow> ?days ! d' \<in> set (declared_dates inp n')"
    if "n' \<in> set ?nurses" "d' < length ?days" for n' d'
    using holds_leave_constraints [OF core_parts(1) [OF core] that] .
  have one: "length (filter (\<lambda>s. val (work_at ?w n' d' s)) shift_names) = 1"
    if "n' \<in> set ?nurses" "d' < length ?days" for n' d'
    using one_shift_per_nurse_day [OF assms(1,3,6) that] .
  have first: "(if ?days ! d \<in> set (declared_dates inp n)
          then assigned ?w val n d ''MC'' \<and> \<not> assigned ?w val n d ''AM''
               \<and> \<not> assigned ?w val n d ''PM'' \<and> \<not> assigned ?w val n d ''Night''
               \<and> \<not> assigned ?w val n d ''REST''
          else \<not> assigned ?w val n d ''MC'')"
    using mc [OF assms(7,8)] one_shift_cases(1) [OF one [OF assms(7,8)]]
    by (simp add: assigned_def)
  have rows: "(s = ''MC'') = (dt \<in> set (declared_dates inp n'))"
    if "(n', dt, s) \<in> set (rows_of ?w val ?nurses ?days shift_names)" for n' dt s
  proof -
    from that obtain d' where d': "n' \<in> set ?nurses" "s \<in> set shift_names" "d' < length ?days"
      "dt = ?days ! d'" "val (work_at ?w n' d' s)"
      by (auto simp: set_rows_of work_at_def)
    show ?thesis
      using mc [OF d'(1,3)] one_shift_cases(1) [OF one [OF d'(1,3)]] d'(2,4,5)
      by (auto simp: shift_names_def)
  qed
  have "list_all (\<lambda>(n', dt, s). (s = ''MC'') = (dt \<in> set (declared_dates inp n')))
          (rows_of ?w val ?nurses ?days shift_names)"
    using rows by (auto simp: list_all_iff)
  then show ?thesis
    using first build_and_solve_success [OF assms(1-5), of cs] by blast
qed

theorem declared_leave_honoured_witness:
  "assigned (ns_work demo_core) demo_rota ''J01'' 0 ''MC''
   \<and> \<not> assigned (ns_work demo_core) demo_rota ''J01'' 0 ''AM''
   \<and> \<not> assigned (ns_work demo_core) demo_rota ''J01'' 0 ''PM''
   \<and> \<not> assigned (ns_work demo_core) demo_rota ''J01'' 0 ''Night''
   \<and> \<not> assigned (ns_work demo_core) demo_rota ''J01'' 0 ''REST''
   \<and> (\<exists>rows. build_and_solve demo_env demo_input (None :: unit option) = Inr [(''s'', Rows rows)]
         \<and> list_all (\<lambda>(n', dt, s). (s = ''MC'') = (dt \<in> set (declared_dates demo_input n'))) rows)"
  using declared_leave_honoured [OF demo_build_core demo_custom_rules demo_only_adds demo_solve _ demo_sat,
      of "''J01''" 0 "None :: unit option"]
  by (simp add: demo_input_fields demo_core_fields)

text \<open>
  C4 without the condition on the fragment: the fragment that empties the constraint list
  passes the check of step 4, the solve succeeds, and J01, whose leave on 2024-07-01 is
  declared, is on PM that day, in the solution and in the rows returned.
\<close>

theorem declared_leave_unenforced_after_dropping:
  "declared_dates demo_input ''J01'' = [''2024-07-01'']
   \<and> build_core dropping_env demo_input = Inr demo_core
   \<and> custom_rules dropping_env demo_input demo_core = Inr demo_dropped
   \<and> Solve dropping_env parameters (ns_model demo_dropped) = (OPTIMAL, pm_rota)
   \<and> sat_model (ns_model demo_dropped) pm_rota
   \<and> assigned (ns_work demo_core) pm_rota ''J01'' 0 ''PM''
   \<and> \<not> assigned (ns_work demo_core) pm_rota ''J01'' 0 ''MC''
   \<and> build_and_solve dropping_env demo_input (None :: unit option) =
       Inr [(''s'', Rows [(''S00'', ''2024-07-01'', ''PM''), (''S01'', ''2024-07-01'', ''PM''),
                          (''J00'', ''2024-07-01'', ''PM''), (''J01'', ''2024-07-01'', ''PM'')])]"
  by (simp add: demo_input_fields dropping_build_core dropping_custom_rules dropping_solve dropped_sat
        pm_rota_values dropping_result)

text \<open>
  C5. Provided the custom-rule fragment, if there is one, only adds constraints
  (\<open>only_adds\<close>, which the code does not enforce), after a successful solve over N nurses
  and D days the projected list has exactly
  N * D rows, and its (nurse, date) columns are the nurses times the days, in order: one
  row for each nurse on each day.
\<close>

theorem one_row_per_nurse_and_day:
  assumes "build_core env inp = Inr ns0" "custom_rules env inp ns0 = Inr ns" "only_adds ns0 ns"
    "Solve env parameters (ns_model ns) = (st, val)" "st = OPTIMAL \<or> st = FEASIBLE"
    "sat_model (ns_model ns) val"
  shows "\<exists>rows. build_and_solve env inp cs = Inr [(''s'', Rows rows)]
           \<and> length rows = (length (seniors inp) + length (juniors inp)) * length (ns_days ns0)
           \<and> map (\<lambda>(n, dt, s). (n, dt)) rows = [(n, dt). n \<leftarrow> seniors inp @ juniors inp, dt \<leftarrow> ns_days ns0]"
proof -
  let ?w = "ns_work ns0" and ?nurses = "seniors inp @ juniors inp" and ?days = "ns_days ns0"
  let ?rows = "rows_of ?w val ?nurses ?days shift_names"
  have grid: "map (\<lambda>(n, dt, s). (n, dt)) ?rows = [(n, dt). n \<leftarrow> ?nurses, dt \<leftarrow> ?days]"
  proof (rule rows_of_grid)
    fix n d assume "n \<in> set ?nurses" "d < length ?days"
    then show "\<exists>s. filter (\<lambda>s. val (the (?w (n, d, s)))) shift_names = [s]"
      using one_shift_cases(2) [OF one_shift_per_nurse_day [OF assms(1,3,6)], of n d]
      by (simp add: work_at_def)
  qed
  have "length ?rows = length (map (\<lambda>(n, dt, s). (n, dt)) ?rows)" by simp
  also have "\<dots> = (length (seniors inp) + length (juniors inp)) * length ?days"
    unfolding grid length_grid by simp
  finally show ?thesis
    using grid build_and_solve_success [OF assms(1-5), of cs] by blast
qed

theorem one_row_per_nurse_and_day_witness:
  "\<exists>rows. build_and_solve demo_env demo_input (None :: unit option) = Inr [(''s'', Rows rows)]
      \<and> length rows = 4
      \<and> map (\<lambda>(n, dt, s). (n, dt)) rows =
          [(''S00'', ''2024-07-01''), (''S01'', ''2024-07-01''), (''J00'', ''2024-07-01''),
           (''J01'', ''2024-07-01'')]"
  using one_row_per_nurse_and_day [OF demo_build_core demo_custom_rules demo_only_adds demo_solve _ demo_sat,
      of "None :: unit option"]
  by (simp add: demo_input_fields demo_core_fields numeral_eq_Suc)

text \<open>
  C5 without the condition on the fragment: the fragment \<^verbatim>\<open>nurses.pop()\<close> passes the
  check of step 4, the solve succeeds, and the result has three rows for four nurses and
  one day.
\<close>

theorem nurse_rows_lost_after_pop:
  "length (seniors demo_input) + length (juniors demo_input) = 4
   \<and> ns_days demo_core = [''2024-07-01'']
   \<and> build_and_solve popping_env demo_input (None :: unit option) =
       Inr [(''s'', Rows [(''S00'', ''2024-07-01'', ''AM''), (''S01'', ''2024-07-01'', ''PM''),
                          (''J00'', ''2024-07-01'', ''Night'')])]"
  by (simp add: demo_input_fields demo_core_fields popping_result)

text \<open>
  C6. Provided the custom-rule fragment, if there is one, only adds constraints
  (\<open>only_adds\<close>, which the code does not enforce), for every nurse and every one of the
  \<open>D div 7\<close> blocks of seven days starting at day 0, in every solution the sum of the nurse's AM, PM and Night assignments in the
  block, weighted 7, 7 and 10, lies between \<^verbatim>\<open>min_hours_per_week\<close> and
  \<^verbatim>\<open>max_hours_per_week\<close>.
\<close>

theorem weekly_hours_within_limits:
  assumes "build_core env inp = Inr ns0" "only_adds ns0 ns" "sat_model (ns_model ns) val"
    "n \<in> set (seniors inp @ juniors inp)" "wk < length (ns_days ns0) div 7"
  shows "min_hours_per_week inp \<le> week_hours (ns_work ns0) val n wk
       \<and> week_hours (ns_work ns0) val n wk \<le> max_hours_per_week inp"
  using holds_weekly_hours [OF core_parts(5) [OF sat_core_constraints [OF assms(1-3)]] assms(4,5)]
  by (simp add: eval_week_total)

theorem weekly_hours_within_limits_witness:
  "35 \<le> week_hours (ns_work week_core) week_rota ''S00'' 0
   \<and> week_hours (ns_work week_core) week_rota ''S00'' 0 \<le> 42"
  using weekly_hours_within_limits [OF week_build_core only_adds_refl week_sat, of "''S00''" 0]
  by (simp add: week_input_fields week_days)

text \<open>
  C6 without the condition on the fragment: over the week, after the fragment that empties
  the constraint list, the solve succeeds with S00 on REST every day: 0 hours in the block,
  although \<^verbatim>\<open>min_hours_per_week\<close> is 35.
\<close>

theorem weekly_hours_unenforced_after_dropping:
  "min_hours_per_week week_rules_input = 35
   \<and> build_core week_dropping_env week_rules_input = Inr week_rules_core
   \<and> custom_rules week_dropping_env week_rules_input week_rules_core = Inr week_dropped
   \<and> Solve week_dropping_env parameters (ns_model week_dropped) = (OPTIMAL, rest_rota)
   \<and> sat_model (ns_model week_dropped) rest_rota
   \<and> length (ns_days week_rules_core) div 7 = 1
   \<and> week_hours (ns_work week_rules_core) rest_rota ''S00'' 0 = 0"
  by (simp add: week_rules_fields week_rules_build_core week_rules_custom_rules week_dropping_solve
        week_dropped_sat rest_rota_hours)




text \<open>
  C8. Provided the custom-rule fragment, if there is one, only adds constraints
  (\<open>only_adds\<close>, which the code does not enforce), in every solution, for every day and
  each of the shifts AM, PM and Night, the
  number of nurses on the shift is at least \<^verbatim>\<open>min_nurses_per_shift\<close> and the number of
  seniors on it is at least \<^verbatim>\<open>min_seniors_per_shift\<close>.
\<close>

theorem shift_coverage_met:
  assumes "build_core env inp = Inr ns0" "only_adds ns0 ns" "sat_model (ns_model ns) val"
    "d < length (ns_days ns0)" "s \<in> set working_shifts"
  shows "min_nurses_per_shift inp \<le> int (headcount (ns_work ns0) val (seniors inp @ juniors inp) d s)
       \<and> min_seniors_per_shift inp \<le> int (headcount (ns_work ns0) val (seniors inp) d s)"
  using holds_shift_coverage [OF core_parts(3) [OF sat_core_constraints [OF assms(1-3)]] assms(4,5)] .

theorem shift_coverage_met_witness:
  "1 \<le> int (headcount (ns_work senior_core) demo_rota [''S00'', ''S01'', ''S02'', ''J00''] 0 ''Night'')
   \<and> 1 \<le> int (headcount (ns_work senior_core) demo_rota [''S00'', ''S01'', ''S02''] 0 ''Night'')"
  using shift_coverage_met [OF senior_build_core only_adds_refl senior_sat, of 0 "''Night''"]
  by (simp add: senior_fields working_shifts_def)

text \<open>
  C8 without the condition on the fragment: the fragment that empties the constraint list
  passes the check of step 4, the solve succeeds, and no nurse is on Night although
  \<^verbatim>\<open>min_nurses_per_shift\<close> is 1.
\<close>

theorem shift_coverage_unenforced_after_dropping:
  "min_nurses_per_shift demo_input = 1
   \<and> build_core dropping_env demo_input = Inr demo_core
   \<and> custom_rules dropping_env demo_input demo_core = Inr demo_dropped
   \<and> Solve dropping_env parameters (ns_model demo_dropped) = (OPTIMAL, pm_rota)
   \<and> sat_model (ns_model demo_dropped) pm_rota
   \<and> headcount (ns_work demo_core) pm_rota [''S00'', ''S01'', ''J00'', ''J01''] 0 ''Night'' = 0"
  by (simp add: demo_input_fields dropping_build_core dropping_custom_rules dropping_solve dropped_sat
        pm_rota_values)



end
